theory Spec2Isabelle
  imports Complex_Main "HOL-Library.Product_Lexorder" "HOL-Library.Sublist"
begin

section \<open>Strings\<close>

text \<open>
  A Python \<open>str\<close> is modelled as a \<^typ>\<open>string\<close>, one \<^typ>\<open>char\<close> per code point, for the
  code points 0..255. \<open>len\<close> is \<^const>\<open>length\<close>. On that range \<open>str.isspace\<close> (and the
  regular expression class \<open>\s\<close>) holds of the code points 9..13, 28..32, 133 and 160, and
  \<open>str.lower\<close> adds 32 to the code points 65..90, 192..214 and 216..222 and leaves every
  other one alone.
\<close>

definition isspace :: "char \<Rightarrow> bool" where
  "isspace c = (let n = (of_char c :: nat) in
     (9 \<le> n \<and> n \<le> 13) \<or> (28 \<le> n \<and> n \<le> 32) \<or> n = 133 \<or> n = 160)"

definition lower_char :: "char \<Rightarrow> char" where
  "lower_char c = (let n = (of_char c :: nat) in
     if (65 \<le> n \<and> n \<le> 90) \<or> (192 \<le> n \<and> n \<le> 214) \<or> (216 \<le> n \<and> n \<le> 222)
     then char_of (n + 32) else c)"

definition lower :: "string \<Rightarrow> string" where
  "lower s = map lower_char s"

text \<open>
  \<open>sep.join(xs)\<close>, \<open>p in s\<close> on strings, and \<open>s.split()\<close> (split at runs of white space,
  no empty pieces).
\<close>

fun join :: "string \<Rightarrow> string list \<Rightarrow> string" where
  "join sep [] = []"
| "join sep [x] = x"
| "join sep (x # y # ys) = x @ sep @ join sep (y # ys)"

definition startswith :: "string \<Rightarrow> string \<Rightarrow> bool" where
  "startswith s p = (take (length p) s = p)"

fun is_substring :: "string \<Rightarrow> string \<Rightarrow> bool" where
  "is_substring p [] = (p = [])"
| "is_substring p (c # cs) = (startswith (c # cs) p \<or> is_substring p cs)"

fun split_ws_from :: "string \<Rightarrow> string \<Rightarrow> string list" where
  "split_ws_from cur [] = (if cur = [] then [] else [cur])"
| "split_ws_from cur (c # cs) =
     (if isspace c then (if cur = [] then split_ws_from [] cs else cur # split_ws_from [] cs)
      else split_ws_from (cur @ [c]) cs)"

definition split_ws :: "string \<Rightarrow> string list" where
  "split_ws s = split_ws_from [] s"

text \<open>
  \<open>re.split(r'(?<=[.!?])\s+', text)\<close>: the text is cut at every maximal run of white space
  that follows one of the characters \<open>.\<close>, \<open>!\<close>, \<open>?\<close>; the run is dropped, the punctuation
  stays with the piece before it. \<open>cur\<close> is the piece read so far.
\<close>

function split_sentences_from :: "string \<Rightarrow> string \<Rightarrow> string list" where
  "split_sentences_from cur [] = [cur]"
| "split_sentences_from cur (c # cs) =
     (if c \<in> set ''.!?'' \<and> cs \<noteq> [] \<and> isspace (hd cs)
      then (cur @ [c]) # split_sentences_from [] (dropWhile isspace cs)
      else split_sentences_from (cur @ [c]) cs)"
  by pat_completeness auto
termination
  by (relation "measure (\<lambda>(cur, rest). length rest)")
     (auto simp: less_Suc_eq_le length_dropWhile_le)

definition split_sentences :: "string \<Rightarrow> string list" where
  "split_sentences text = split_sentences_from [] text"

section \<open>urllib.parse\<close>

text \<open>
  \<open>urlsplit\<close>, \<open>urlparse\<close>, \<open>urlunparse\<close> and \<open>urljoin\<close> of the Python standard library
  (as of CPython 3.11.4), on which \<open>utils.py\<close> and \<open>crawler.py\<close> rest. A \<open>ValueError\<close> is a
  value, and so is the exception of the markup parser (\<open>MarkupError\<close>). The validation of a bracketed host by the \<open>ipaddress\<close> module is the parameter
  \<open>check_bracketed_host\<close>, true when the host between the brackets is accepted. The check
  of the host under NFKC normalisation never fails on the code points 0..255 and is left out.
\<close>

datatype error = ValueError | MarkupError

record parse_result =
  scheme :: string
  netloc :: string
  path :: string
  params :: string
  query :: string
  fragment :: string

definition before :: "char \<Rightarrow> string \<Rightarrow> string" where
  "before d s = takeWhile (\<lambda>c. c \<noteq> d) s"

definition after :: "char \<Rightarrow> string \<Rightarrow> string" where
  "after d s = tl (dropWhile (\<lambda>c. c \<noteq> d) s)"

definition c0_control_or_space :: "char \<Rightarrow> bool" where
  "c0_control_or_space c = ((of_char c :: nat) \<le> 32)"

definition unsafe_url_byte :: "char \<Rightarrow> bool" where
  "unsafe_url_byte c = ((of_char c :: nat) = 9 \<or> (of_char c :: nat) = 13 \<or> (of_char c :: nat) = 10)"

definition scheme_chars :: string where
  "scheme_chars = ''abcdefghijklmnopqrstuvwxyzABCDEFGHIJKLMNOPQRSTUVWXYZ0123456789+-.''"

definition ascii_alpha :: "char \<Rightarrow> bool" where
  "ascii_alpha c = (let n = (of_char c :: nat) in (65 \<le> n \<and> n \<le> 90) \<or> (97 \<le> n \<and> n \<le> 122))"

definition uses_params :: "string list" where
  "uses_params = [[], ''ftp'', ''hdl'', ''prospero'', ''http'', ''imap'', ''https'', ''shttp'',
     ''rtsp'', ''rtsps'', ''rtspu'', ''sip'', ''sips'', ''mms'', ''sftp'', ''tel'']"

definition uses_relative :: "string list" where
  "uses_relative = [[], ''ftp'', ''http'', ''gopher'', ''nntp'', ''imap'', ''wais'', ''file'',
     ''https'', ''shttp'', ''mms'', ''prospero'', ''rtsp'', ''rtsps'', ''rtspu'', ''sftp'', ''svn'',
     ''svn+ssh'', ''ws'', ''wss'']"

definition uses_netloc :: "string list" where
  "uses_netloc = [[], ''ftp'', ''http'', ''gopher'', ''nntp'', ''telnet'', ''imap'', ''wais'',
     ''file'', ''mms'', ''https'', ''shttp'', ''snews'', ''prospero'', ''rtsp'', ''rtsps'', ''rtspu'',
     ''rsync'', ''svn'', ''svn+ssh'', ''sftp'', ''nfs'', ''git'', ''git+ssh'', ''ws'', ''wss'']"

text \<open>The scheme of a URL, when it has one, and what follows the colon.\<close>

definition split_scheme :: "string \<Rightarrow> string \<Rightarrow> string \<times> string" where
  "split_scheme default_scheme url =
     (if CHR '':'' \<in> set url \<and> before (CHR '':'') url \<noteq> [] \<and> ascii_alpha (hd url)
         \<and> list_all (\<lambda>c. c \<in> set scheme_chars) (before (CHR '':'') url)
      then (lower (before (CHR '':'') url), after (CHR '':'') url)
      else (default_scheme, url))"

definition splitnetloc :: "string \<Rightarrow> string \<times> string" where
  "splitnetloc url =
     (takeWhile (\<lambda>c. c \<notin> set ''/?#'') (drop 2 url), dropWhile (\<lambda>c. c \<notin> set ''/?#'') (drop 2 url))"

definition split_fragment_query :: "string \<Rightarrow> string \<times> string \<times> string" where
  "split_fragment_query url =
     (let (url, frag) = (if CHR ''#'' \<in> set url then (before (CHR ''#'') url, after (CHR ''#'') url)
                             else (url, []));
          (url, qry) = (if CHR ''?'' \<in> set url then (before (CHR ''?'') url, after (CHR ''?'') url)
                          else (url, []))
      in (url, qry, frag))"

definition urlsplit ::
  "(string \<Rightarrow> bool) \<Rightarrow> string \<Rightarrow> string \<Rightarrow> error + (string \<times> string \<times> string \<times> string \<times> string)" where
  "urlsplit check_bracketed_host url default_scheme =
     (let url = filter (\<lambda>c. \<not> unsafe_url_byte c) (dropWhile c0_control_or_space url);
          default_scheme = filter (\<lambda>c. \<not> unsafe_url_byte c)
             (rev (dropWhile c0_control_or_space (rev (dropWhile c0_control_or_space default_scheme))));
          (sch, url) = split_scheme default_scheme url
      in if take 2 url = ''//'' then
           (let (loc, url) = splitnetloc url in
            if (CHR ''['' \<in> set loc \<and> CHR '']'' \<notin> set loc)
               \<or> (CHR '']'' \<in> set loc \<and> CHR ''['' \<notin> set loc) then Inl ValueError
            else if CHR ''['' \<in> set loc \<and> CHR '']'' \<in> set loc
                    \<and> \<not> check_bracketed_host (before (CHR '']'') (after (CHR ''['') loc))
            then Inl ValueError
            else (let (url, qry, frag) = split_fragment_query url
                  in Inr (sch, loc, url, qry, frag)))
         else (let (url, qry, frag) = split_fragment_query url
               in Inr (sch, [], url, qry, frag)))"

text \<open>
  \<open>_splitparams\<close>: the parameters are what follows the first semicolon of the last path
  segment.
\<close>

definition splitparams :: "string \<Rightarrow> string \<times> string" where
  "splitparams url =
     (if CHR ''/'' \<in> set url then
        (let last_segment = rev (takeWhile (\<lambda>c. c \<noteq> CHR ''/'') (rev url));
             front = take (length url - length last_segment) url
         in if CHR '';'' \<in> set last_segment
            then (front @ before (CHR '';'') last_segment, after (CHR '';'') last_segment)
            else (url, []))
      else (before (CHR '';'') url, after (CHR '';'') url))"

definition urlparse :: "(string \<Rightarrow> bool) \<Rightarrow> string \<Rightarrow> string \<Rightarrow> error + parse_result" where
  "urlparse check_bracketed_host url default_scheme =
     (case urlsplit check_bracketed_host url default_scheme of
        Inl e \<Rightarrow> Inl e
      | Inr (sch, loc, url, qry, frag) \<Rightarrow>
          (let (url, prm) = (if sch \<in> set uses_params \<and> CHR '';'' \<in> set url
                                then splitparams url else (url, []))
           in Inr \<lparr>scheme = sch, netloc = loc, path = url, params = prm,
                   query = qry, fragment = frag\<rparr>))"

definition urlunsplit :: "string \<Rightarrow> string \<Rightarrow> string \<Rightarrow> string \<Rightarrow> string \<Rightarrow> string" where
  "urlunsplit sch loc url qry frag =
     (let url = (if loc \<noteq> [] \<or> (sch \<noteq> [] \<and> sch \<in> set uses_netloc) \<or> take 2 url = ''//''
                 then ''//'' @ loc @ (if url \<noteq> [] \<and> take 1 url \<noteq> ''/'' then ''/'' @ url else url)
                 else url);
          url = (if sch \<noteq> [] then sch @ '':'' @ url else url);
          url = (if qry \<noteq> [] then url @ ''?'' @ qry else url);
          url = (if frag \<noteq> [] then url @ ''#'' @ frag else url)
      in url)"

definition urlunparse :: "parse_result \<Rightarrow> string" where
  "urlunparse p =
     urlunsplit (scheme p) (netloc p)
       (if params p \<noteq> [] then path p @ '';'' @ params p else path p) (query p) (fragment p)"

text \<open>\<open>s.split(sep)\<close> for a one-character separator; \<open>cur\<close> is the piece read so far.\<close>

fun split_on_from :: "char \<Rightarrow> string \<Rightarrow> string \<Rightarrow> string list" where
  "split_on_from d cur [] = [cur]"
| "split_on_from d cur (c # cs) =
     (if c = d then cur # split_on_from d [] cs else split_on_from d (cur @ [c]) cs)"

definition split_on :: "char \<Rightarrow> string \<Rightarrow> string list" where
  "split_on d s = split_on_from d [] s"

text \<open>The loop of \<open>urljoin\<close> that resolves the dot segments.\<close>

fun resolve_segments :: "string list \<Rightarrow> string list \<Rightarrow> string list" where
  "resolve_segments resolved_path [] = resolved_path"
| "resolve_segments resolved_path (seg # segs) =
     (if seg = ''..'' then resolve_segments (butlast resolved_path) segs
      else if seg = ''.'' then resolve_segments resolved_path segs
      else resolve_segments (resolved_path @ [seg]) segs)"

definition filter_inner_segments :: "string list \<Rightarrow> string list" where
  "filter_inner_segments segments =
     (case segments of
        [] \<Rightarrow> []
      | [x] \<Rightarrow> [x]
      | x # rest \<Rightarrow> x # filter (\<lambda>seg. seg \<noteq> []) (butlast rest) @ [last rest])"

definition urljoin :: "(string \<Rightarrow> bool) \<Rightarrow> string \<Rightarrow> string \<Rightarrow> error + string" where
  "urljoin check_bracketed_host base url =
     (if base = [] then Inr url
      else if url = [] then Inr base
      else case urlparse check_bracketed_host base [] of
        Inl e \<Rightarrow> Inl e
      | Inr b \<Rightarrow>
         (case urlparse check_bracketed_host url (scheme b) of
            Inl e \<Rightarrow> Inl e
          | Inr u \<Rightarrow>
             if scheme u \<noteq> scheme b \<or> scheme u \<notin> set uses_relative then Inr url
             else if scheme u \<in> set uses_netloc \<and> netloc u \<noteq> [] then Inr (urlunparse u)
             else
               (let netloc' = (if scheme u \<in> set uses_netloc then netloc b else netloc u) in
                if path u = [] \<and> params u = [] then
                  Inr (urlunparse \<lparr>scheme = scheme u, netloc = netloc', path = path b,
                         params = params b,
                         query = (if query u = [] then query b else query u),
                         fragment = fragment u\<rparr>)
                else
                  (let base_parts = split_on (CHR ''/'') (path b);
                       base_parts = (if last base_parts \<noteq> [] then butlast base_parts else base_parts);
                       segments = (if take 1 (path u) = ''/'' then split_on (CHR ''/'') (path u)
                                   else filter_inner_segments (base_parts @ split_on (CHR ''/'') (path u)));
                       resolved_path = resolve_segments [] segments;
                       resolved_path = (if last segments = ''.'' \<or> last segments = ''..''
                                        then resolved_path @ [[]] else resolved_path);
                       joined = join ''/'' resolved_path
                   in Inr (urlunparse \<lparr>scheme = scheme u, netloc = netloc',
                             path = (if joined = [] then ''/'' else joined),
                             params = params u, query = query u, fragment = fragment u\<rparr>)))))"

text \<open>
  The URLs of the runs evaluated below have no bracketed host, so the validation is never
  consulted there; it is fixed as the one that accepts nothing.
\<close>

definition no_bracketed_host :: "string \<Rightarrow> bool" where
  "no_bracketed_host host = False"

section \<open>utils.py\<close>

definition rstrip_slash :: "string \<Rightarrow> string" where
  "rstrip_slash s = rev (dropWhile (\<lambda>c. c = CHR ''/'') (rev s))"

text \<open>
  \<open>normalize_url\<close>. \<open>base_url\<close> is \<open>None\<close> when the argument is left out. Every exception is
  caught and the URL returned as it came.
\<close>

definition normalize_url :: "(string \<Rightarrow> bool) \<Rightarrow> string \<Rightarrow> string option \<Rightarrow> string" where
  "normalize_url check_bracketed_host url base_url =
     (case urlparse check_bracketed_host url [] of
        Inl e \<Rightarrow> url
      | Inr parsed \<Rightarrow>
          (let normalized = scheme parsed @ ''://'' @ netloc parsed @ path parsed;
               normalized = rstrip_slash normalized
           in if base_url \<noteq> None \<and> base_url \<noteq> Some [] \<and> netloc parsed = []
              then (case urljoin check_bracketed_host (the base_url) url of
                      Inl e \<Rightarrow> url
                    | Inr joined \<Rightarrow> joined)
              else normalized))"

definition extract_domain :: "(string \<Rightarrow> bool) \<Rightarrow> string \<Rightarrow> string" where
  "extract_domain check_bracketed_host url =
     (case urlparse check_bracketed_host url [] of Inl e \<Rightarrow> [] | Inr parsed \<Rightarrow> netloc parsed)"

section \<open>crawler.py\<close>

text \<open>
  What the crawler does not own is a \<open>world\<close>: whether caching is switched on and what the
  cache holds for a URL (the pair \<open>cached.get("content")\<close>, \<open>cached.get("html")\<close>), what the
  markup parser makes of a page (the meaningful content, the \<open>href\<close> values of its anchors in
  document order, its title; \<open>None\<close> where the parser raises, or where there is no title), in
  which order a set of strings is iterated, and the validation of bracketed hosts. The
  answer of the network to a request comes with the event that completes the request.
  No URL is fetched twice in a run, so what the run itself writes to the cache is never
  read back and the cache is not part of the state.
\<close>

datatype http_outcome = NetworkError | Response nat string

record world =
  cache_enabled :: bool
  cache_get :: "string \<Rightarrow> (string option \<times> string option) option"
  soup_content :: "string \<Rightarrow> string option"
  soup_hrefs :: "string \<Rightarrow> string list option"
  soup_title :: "string \<Rightarrow> string option"
  set_order :: "string list \<Rightarrow> string list"
  check_bracketed_host :: "string \<Rightarrow> bool"

text \<open>
  \<open>fetch_page\<close>, once the semaphore is held. \<open>response\<close> is what \<open>session.get\<close> yields; it
  is not looked at on a cache hit. Every exception ends in \<open>(None, None)\<close>.
\<close>

definition fetch_page :: "world \<Rightarrow> string \<Rightarrow> http_outcome \<Rightarrow> string option \<times> string option" where
  "fetch_page w url response =
     (case (if cache_enabled w then cache_get w url else None) of
        Some cached \<Rightarrow> cached
      | None \<Rightarrow>
         (case response of
            NetworkError \<Rightarrow> (None, None)
          | Response status html \<Rightarrow>
              if status \<noteq> 200 then (None, None)
              else (case soup_content w html of
                      None \<Rightarrow> (None, None)
                    | Some content \<Rightarrow> (Some content, Some html))))"

definition is_internal_link :: "(string \<Rightarrow> bool) \<Rightarrow> string \<Rightarrow> string \<Rightarrow> bool" where
  "is_internal_link cbh url base_domain =
     (case urlparse cbh url [] of
        Inl e \<Rightarrow> False
      | Inr parsed \<Rightarrow> netloc parsed = base_domain \<or> netloc parsed = [])"

text \<open>
  \<open>extract_links\<close>: the loop over the anchors, then \<open>list(set(links))\<close>. An exception of
  \<open>urljoin\<close> or of the parser is not caught here.
\<close>

fun collect_links :: "world \<Rightarrow> string \<Rightarrow> string \<Rightarrow> string list \<Rightarrow> error + string list" where
  "collect_links w url base_domain [] = Inr []"
| "collect_links w url base_domain (href # hrefs) =
     (if startswith href ''#'' \<or> startswith href ''javascript:''
      then collect_links w url base_domain hrefs
      else case urljoin (check_bracketed_host w) url href of
        Inl e \<Rightarrow> Inl e
      | Inr absolute_url \<Rightarrow>
         (let normalized_url = normalize_url (check_bracketed_host w) absolute_url None in
          case collect_links w url base_domain hrefs of
            Inl e \<Rightarrow> Inl e
          | Inr links \<Rightarrow>
              Inr (if is_internal_link (check_bracketed_host w) normalized_url base_domain
                   then normalized_url # links else links)))"

definition extract_links :: "world \<Rightarrow> string \<Rightarrow> string \<Rightarrow> string \<Rightarrow> error + string list" where
  "extract_links w url html base_domain =
     (case soup_hrefs w html of
        None \<Rightarrow> Inl MarkupError
      | Some hrefs \<Rightarrow>
         (case collect_links w url base_domain hrefs of
            Inl e \<Rightarrow> Inl e
          | Inr links \<Rightarrow> Inr (set_order w links)))"

definition extract_title :: "world \<Rightarrow> string \<Rightarrow> string" where
  "extract_title w html = (case soup_title w html of None \<Rightarrow> ''Untitled'' | Some t \<Rightarrow> t)"

text \<open>
  \<open>crawl_documentation\<close>. Every call of \<open>crawl_recursive\<close> is a coroutine on the one event
  loop, and runs without interruption between two suspensions. A coroutine is \<open>created\<close>
  (by \<open>crawl_recursive(...)\<close> for the seed and in the list handed to \<open>gather\<close>), then started:
  it checks the three limits, marks its URL visited, logs it, and asks for the semaphore,
  which it gets at once when one of the five permits is free and nobody waits, and for
  which it queues otherwise (\<open>waiting\<close>, first come first served). Holding a permit it is
  \<open>fetching\<close>, until the answer of the network arrives. With the answer it gives the permit
  back, records the page and creates the coroutines of the links it follows. The state of
  a run is the visited set of the crawler, the result dictionary (in insertion order), the
  log of the \<open>Crawling:\<close> lines, the three groups of coroutines, each with its URL and depth,
  and the exception that ended the run, if any.
\<close>

record page_record =
  page_url :: string
  page_content :: string
  page_html :: string
  page_depth :: int
  page_title :: string

record crawl_state =
  visited_urls :: "string set"
  results :: "(string \<times> page_record) list"
  crawl_log :: "(string \<times> int) list"
  created :: "(string \<times> int) list"
  waiting :: "(string \<times> int) list"
  fetching :: "(string \<times> int) list"
  raised :: "error option"

datatype event = Start nat | Acquire | Complete nat http_outcome

definition remove_nth :: "nat \<Rightarrow> 'a list \<Rightarrow> 'a list" where
  "remove_nth i xs = take i xs @ drop (Suc i) xs"

text \<open>\<open>d[k] = v\<close> on a dictionary kept as a list of pairs in insertion order.\<close>

fun dict_set :: "('k \<times> 'v) list \<Rightarrow> 'k \<Rightarrow> 'v \<Rightarrow> ('k \<times> 'v) list" where
  "dict_set [] k v = [(k, v)]"
| "dict_set ((k', v') # d) k v = (if k' = k then (k, v) # d else (k', v') # dict_set d k v)"

text \<open>The first stretch of \<open>crawl_recursive\<close>, up to the request for the semaphore.\<close>

definition start_task :: "int \<Rightarrow> int \<Rightarrow> string \<times> int \<Rightarrow> crawl_state \<Rightarrow> crawl_state" where
  "start_task max_depth max_pages task s =
     (case task of (url, depth) \<Rightarrow>
        if depth > max_depth \<or> int (length (results s)) \<ge> max_pages \<or> url \<in> visited_urls s
        then s
        else (let s = s\<lparr>visited_urls := insert url (visited_urls s),
                          crawl_log := crawl_log s @ [(url, depth)]\<rparr>
              in if length (fetching s) < 5 \<and> waiting s = []
                 then s\<lparr>fetching := fetching s @ [(url, depth)]\<rparr>
                 else s\<lparr>waiting := waiting s @ [(url, depth)]\<rparr>))"

text \<open>The last stretch: from the answer of the network to \<open>gather\<close>.\<close>

definition finish_task ::
  "world \<Rightarrow> int \<Rightarrow> string \<Rightarrow> string \<times> int \<Rightarrow> http_outcome \<Rightarrow> crawl_state \<Rightarrow> crawl_state" where
  "finish_task w max_depth domain task response s =
     (case task of (url, depth) \<Rightarrow>
        (case fetch_page w url response of
           (Some content, Some html) \<Rightarrow>
             if content \<noteq> [] \<and> html \<noteq> [] then
               (let s = s\<lparr>results := dict_set (results s) url
                            \<lparr>page_url = url, page_content = content, page_html = html,
                             page_depth = depth, page_title = extract_title w html\<rparr>\<rparr>
                in if depth < max_depth then
                     (case extract_links w url html domain of
                        Inl e \<Rightarrow> s\<lparr>raised := Some e\<rparr>
                      | Inr links \<Rightarrow>
                          s\<lparr>created := created s @
                               map (\<lambda>link. (link, depth + 1))
                                 (filter (\<lambda>link. link \<notin> visited_urls s) (take 10 links))\<rparr>)
                   else s)
             else s
         | _ \<Rightarrow> s))"

text \<open>
  One step of the event loop. An event that cannot happen in the state (no such
  coroutine, no free permit, nobody waiting, the run already ended by an exception) gives
  \<open>None\<close>.
\<close>

definition step :: "world \<Rightarrow> int \<Rightarrow> int \<Rightarrow> string \<Rightarrow> event \<Rightarrow> crawl_state \<Rightarrow> crawl_state option" where
  "step w max_depth max_pages domain ev s =
     (if raised s \<noteq> None then None
      else case ev of
        Start i \<Rightarrow>
          if i < length (created s)
          then Some (start_task max_depth max_pages (created s ! i)
                       (s\<lparr>created := remove_nth i (created s)\<rparr>))
          else None
      | Acquire \<Rightarrow>
          (case waiting s of
             [] \<Rightarrow> None
           | task # rest \<Rightarrow>
               if length (fetching s) < 5
               then Some (s\<lparr>waiting := rest, fetching := fetching s @ [task]\<rparr>)
               else None)
      | Complete i response \<Rightarrow>
          if i < length (fetching s)
          then Some (finish_task w max_depth domain (fetching s ! i) response
                       (s\<lparr>fetching := remove_nth i (fetching s)\<rparr>))
          else None)"

fun run :: "world \<Rightarrow> int \<Rightarrow> int \<Rightarrow> string \<Rightarrow> event list \<Rightarrow> crawl_state \<Rightarrow> crawl_state option" where
  "run w max_depth max_pages domain [] s = Some s"
| "run w max_depth max_pages domain (ev # evs) s =
     (case step w max_depth max_pages domain ev s of
        None \<Rightarrow> None
      | Some s' \<Rightarrow> run w max_depth max_pages domain evs s')"

text \<open>
  The state in which \<open>crawl_documentation\<close> starts, on a crawler whose visited set is
  \<open>visited\<close> (empty on a new crawler), and what it returns under a schedule of events: the
  result dictionary once every coroutine is done, the exception if one ended the run, and
  \<open>None\<close> when the schedule is not a complete run.
\<close>

definition initial_state :: "string set \<Rightarrow> string \<Rightarrow> crawl_state" where
  "initial_state visited start_url =
     \<lparr>visited_urls = visited, results = [], crawl_log = [], created = [(start_url, 0)],
      waiting = [], fetching = [], raised = None\<rparr>"

definition crawl_documentation ::
  "world \<Rightarrow> string set \<Rightarrow> string \<Rightarrow> int \<Rightarrow> int \<Rightarrow> event list
     \<Rightarrow> (error + (string \<times> page_record) list) option" where
  "crawl_documentation w visited start_url max_depth max_pages schedule =
     (let base_domain = extract_domain (check_bracketed_host w) start_url in
      case run w max_depth max_pages base_domain schedule (initial_state visited start_url) of
        None \<Rightarrow> None
      | Some s \<Rightarrow>
          (case raised s of
             Some e \<Rightarrow> Some (Inl e)
           | None \<Rightarrow>
               if created s = [] \<and> waiting s = [] \<and> fetching s = [] then Some (Inr (results s))
               else None))"

text \<open>
  A small site for the runs evaluated below. Nothing is cached and every page parses. The
  page \<open><index>\<close> links to ten pages, the page \<open><docs>\<close> to \<open>http://a.com/docs/\<close>, the page
  \<open><eleven>\<close> to eleven pages, every other page to nothing. A set is iterated last
  inserted first.
\<close>

definition index_hrefs :: "string list" where
  "index_hrefs = [''http://a.com/p0'', ''http://a.com/p1'', ''http://a.com/p2'', ''http://a.com/p3'',
     ''http://a.com/p4'', ''http://a.com/p5'', ''http://a.com/p6'', ''http://a.com/p7'',
     ''http://a.com/p8'', ''http://a.com/p9'']"

definition site_hrefs :: "string \<Rightarrow> string list option" where
  "site_hrefs html =
     (if html = ''<index>'' then Some index_hrefs
      else if html = ''<docs>'' then Some [''http://a.com/docs/'']
      else if html = ''<eleven>'' then Some (index_hrefs @ [''http://a.com/p10''])
      else Some [])"

definition site_content :: "string \<Rightarrow> string option" where
  "site_content html = Some ''Some text.''"

definition no_cache :: "string \<Rightarrow> (string option \<times> string option) option" where
  "no_cache url = None"

definition no_title :: "string \<Rightarrow> string option" where
  "no_title html = None"

definition last_inserted_first :: "string list \<Rightarrow> string list" where
  "last_inserted_first links = rev (remdups links)"

definition site :: world where
  "site = \<lparr>cache_enabled = False, cache_get = no_cache, soup_content = site_content,
            soup_hrefs = site_hrefs, soup_title = no_title, set_order = last_inserted_first,
            check_bracketed_host = no_bracketed_host\<rparr>"

text \<open>
  Three schedules. In the first the seed \<open><index>\<close> is fetched, its ten links are started
  one after the other (five get a permit, five queue), and the ten fetches complete, a
  queued coroutine taking each permit that comes free. In the second a page and the one
  link on it are fetched in turn. In the third a page is fetched and nothing else happens.
\<close>

definition fanout_schedule :: "event list" where
  "fanout_schedule =
     [Start 0, Complete 0 (Response 200 ''<index>'')] @ replicate 10 (Start 0)
     @ concat (replicate 5 [Complete 0 (Response 200 ''<leaf>''), Acquire])
     @ replicate 5 (Complete 0 (Response 200 ''<leaf>''))"

definition self_link_schedule :: "event list" where
  "self_link_schedule =
     [Start 0, Complete 0 (Response 200 ''<docs>''), Start 0, Complete 0 (Response 200 ''<docs>'')]"

definition eleven_schedule :: "event list" where
  "eleven_schedule = [Start 0, Complete 0 (Response 200 ''<eleven>'')]"

text \<open>
  Three invariants of a run. The coroutines that hold or await a permit are \<open>in flight\<close>.
  Depths: no coroutine has a negative depth, and none in flight and no page record has a
  depth above the limit. Visits: the URLs in flight and the keys of the results are
  pairwise distinct and visited, the logged URLs are pairwise distinct and visited, and at
  most five coroutines hold a permit. Counts: the pages recorded, the coroutines in flight
  and, as long as the page limit is not reached, the coroutines created number at most one
  plus ten for each page recorded below the limit.
\<close>

definition in_flight :: "crawl_state \<Rightarrow> (string \<times> int) list" where
  "in_flight s = waiting s @ fetching s"

definition depth_inv :: "int \<Rightarrow> crawl_state \<Rightarrow> bool" where
  "depth_inv max_depth s =
     ((\<forall>t\<in>set (created s). 0 \<le> snd t)
      \<and> (\<forall>t\<in>set (in_flight s). 0 \<le> snd t \<and> snd t \<le> max_depth)
      \<and> (\<forall>e\<in>set (results s). 0 \<le> page_depth (snd e) \<and> page_depth (snd e) \<le> max_depth))"

definition visit_inv :: "crawl_state \<Rightarrow> bool" where
  "visit_inv s =
     (distinct (map fst (in_flight s) @ map fst (results s))
      \<and> set (map fst (in_flight s)) \<union> set (map fst (results s)) \<subseteq> visited_urls s
      \<and> distinct (map fst (crawl_log s))
      \<and> set (map fst (crawl_log s)) \<subseteq> visited_urls s
      \<and> length (fetching s) \<le> 5)"

definition count_inv :: "int \<Rightarrow> crawl_state \<Rightarrow> bool" where
  "count_inv max_pages s =
     (int (length (results s)) + int (length (in_flight s))
        + (if int (length (results s)) < max_pages then int (length (created s)) else 0)
      \<le> max 0 (1 + 10 * min (int (length (results s))) (max_pages - 1)))"

section \<open>analyzer.py: module candidates and the confidence score\<close>

text \<open>
  A module candidate is the dictionary built by \<open>extract_candidate_modules\<close>, with the four
  keys \<open>name\<close>, \<open>source\<close>, \<open>content\<close> and \<open>url\<close>.
\<close>

record candidate =
  name :: string
  source :: string
  content :: string
  url :: string


text \<open>
  \<open>extract_relevant_sentences\<close>. \<open>len(topic_words & s_words)\<close> is the number of distinct
  words of the topic that are words of the sentence.
\<close>

definition common_words :: "string list \<Rightarrow> string list \<Rightarrow> nat" where
  "common_words topic_words s_words = length (remdups (filter (\<lambda>w. w \<in> set s_words) topic_words))"

definition relevant :: "string \<Rightarrow> string \<Rightarrow> bool" where
  "relevant topic s =
     (is_substring (lower topic) (lower s)
      \<or> common_words (split_ws (lower topic)) (split_ws (lower s)) \<ge> 2)"

definition extract_relevant_sentences :: "string \<Rightarrow> string \<Rightarrow> string list" where
  "extract_relevant_sentences topic text = take 5 (filter (relevant topic) (split_sentences text))"

text \<open>
  \<open>generate_description_algorithmic\<close>. In the source the slice \<open>[:500]\<close> applies to the
  joined sentences only: subscription binds tighter than \<open>+\<close>.
\<close>

definition generate_description_algorithmic :: "candidate \<Rightarrow> string \<Rightarrow> string" where
  "generate_description_algorithmic modul context =
     (let sentences = extract_relevant_sentences (name modul) (content modul);
          sentences = (if sentences = [] then extract_relevant_sentences (name modul) context
                       else sentences)
      in if sentences \<noteq> [] then name modul @ '': '' @ take 500 (join '' '' (take 3 sentences))
         else ''Module related to '' @ name modul @ '' functionality.'')"

definition generate_submodule_description :: "string \<Rightarrow> string \<Rightarrow> string \<Rightarrow> string" where
  "generate_submodule_description submodule content' context =
     (let sentences = extract_relevant_sentences submodule content';
          sentences = (if sentences = [] then extract_relevant_sentences submodule context
                       else sentences)
      in if sentences \<noteq> [] then take 200 (join '' '' (take 2 sentences))
         else ''Functionality related to '' @ submodule @ ''.'')"

text \<open>
  \<open>choose_main_module\<close>: the candidates are sorted (stably) by source priority and then by
  longer content, and the first one is returned; \<open>candidates[0]\<close> raises on an empty list.
\<close>

definition priority :: "string \<Rightarrow> nat" where
  "priority src =
     (if src = ''title'' then 0 else if src = ''heading_h1'' then 1
      else if src = ''heading_h2'' then 2 else if src = ''heading_h3'' then 3 else 99)"

definition choose_main_module :: "candidate list \<Rightarrow> candidate option" where
  "choose_main_module candidates =
     (case sort_key (\<lambda>x. (priority (source x), - int (length (content x)))) candidates of
        [] \<Rightarrow> None
      | c # _ \<Rightarrow> Some c)"

text \<open>
  The loop of the TF-IDF fallback: a candidate is kept when its lower-cased name has not
  been seen yet.
\<close>

fun unique_names :: "string set \<Rightarrow> candidate list \<Rightarrow> candidate list" where
  "unique_names seen [] = []"
| "unique_names seen (c # cs) =
     (if lower (name c) \<notin> seen then c # unique_names (insert (lower (name c)) seen) cs
      else unique_names seen cs)"

text \<open>
  The grouping of the embedding path: \<open>clusters.setdefault(label, []).append(candidate)\<close>
  for every label other than -1, the dictionary keeping its keys in insertion order.
\<close>

fun add_to_cluster :: "int \<Rightarrow> candidate \<Rightarrow> (int \<times> candidate list) list \<Rightarrow> (int \<times> candidate list) list" where
  "add_to_cluster l c [] = [(l, [c])]"
| "add_to_cluster l c ((k, v) # rest) =
     (if k = l then (k, v @ [c]) # rest else (k, v) # add_to_cluster l c rest)"

fun group_clusters :: "(int \<times> candidate list) list \<Rightarrow> (candidate \<times> int) list \<Rightarrow> (int \<times> candidate list) list" where
  "group_clusters clusters [] = clusters"
| "group_clusters clusters ((c, l) # rest) =
     (if l = -1 then group_clusters clusters rest
      else group_clusters (add_to_cluster l c clusters) rest)"

text \<open>
  \<open>cluster_modules\<close>. The sentence embedder with the density clustering, and the TF-IDF
  vectorizer with the cosine similarity, are libraries: \<open>embedder\<close> is \<open>None\<close> when no
  embedding model is installed and otherwise gives the cluster labels of the names, one per
  name; \<open>tfidf_similarity\<close> gives the similarity matrix of the names, or \<open>None\<close> when the
  vectorizer or the similarity raises. Only the \<open>try\<close> block of the fallback catches.
\<close>

definition cluster_modules ::
  "(string list \<Rightarrow> int list) option \<Rightarrow> (string list \<Rightarrow> 'sim option) \<Rightarrow> candidate list \<Rightarrow> candidate list" where
  "cluster_modules embedder tfidf_similarity candidates =
     (if candidates = [] then []
      else let names = map name candidates in
        case embedder of
          Some labels_of \<Rightarrow>
            List.map_filter choose_main_module
              (map snd (group_clusters [] (zip candidates (labels_of names))))
        | None \<Rightarrow>
            (case tfidf_similarity names of
               Some similarity \<Rightarrow> unique_names {} candidates
             | None \<Rightarrow> candidates))"

section \<open>Properties\<close>

subsection \<open>Sentence extraction\<close>

lemma split_sentences_from_no_space:
  "\<forall>c\<in>set s. \<not> isspace c \<Longrightarrow> split_sentences_from cur s = [cur @ s]"
proof (induction s arbitrary: cur)
  case Nil
  then show ?case by simp
next
  case (Cons c cs)
  then show ?case by (cases cs) auto
qed

lemma is_substring_prefix: "is_substring p (p @ r)"
proof (cases "p @ r")
  case Nil
  then show ?thesis by simp
next
  case (Cons a list)
  have "take (length p) (p @ r) = p" by simp
  with Cons show ?thesis by (simp add: startswith_def)
qed

lemma relevant_prefix: "relevant topic (topic @ r)"
  unfolding relevant_def lower_def map_append using is_substring_prefix by blast

text \<open>
  C1, as stated, fails. A module named \<open>Intro\<close> whose content is one unbroken run of 505
  characters starting with its name gets a description of 507 characters: the seven
  characters of \<open>Intro: \<close> and then the first 500 characters of the content.
\<close>

theorem generate_description_exceeds_500:
  "\<not> length (generate_description_algorithmic
        \<lparr>name = ''Intro'', source = ''title'',
         content = ''Intro'' @ replicate 500 (CHR ''a''), url = ''http://a.com''\<rparr> []) \<le> 500"
proof -
  have ns: "\<forall>c\<in>set (''Intro'' @ replicate 500 (CHR ''a'')). \<not> isspace c"
    by (auto simp: isspace_def)
  have "split_sentences (''Intro'' @ replicate 500 (CHR ''a''))
          = [''Intro'' @ replicate 500 (CHR ''a'')]"
    unfolding split_sentences_def using split_sentences_from_no_space [OF ns, of "[]"] by simp
  moreover have "relevant ''Intro'' (''Intro'' @ replicate 500 (CHR ''a''))"
    by (rule relevant_prefix)
  ultimately show ?thesis
    by (simp add: generate_description_algorithmic_def extract_relevant_sentences_def Let_def)
qed

text \<open>
  C1, amended. A heuristic module description is either the name, a colon, a space and at
  most 500 characters of joined sentences, or the template around the name; in both cases
  it has at most \<open>len(name) + 502\<close> characters. A submodule description is either at most 200
  characters of joined sentences or the template around the submodule name.
\<close>

theorem description_length_bounds:
  "((\<exists>body. generate_description_algorithmic m ctx = name m @ '': '' @ body \<and> length body \<le> 500)
     \<or> generate_description_algorithmic m ctx = ''Module related to '' @ name m @ '' functionality.'')
   \<and> length (generate_description_algorithmic m ctx) \<le> length (name m) + 502
   \<and> (length (generate_submodule_description sub c ctx) \<le> 200
     \<or> generate_submodule_description sub c ctx = ''Functionality related to '' @ sub @ ''.'')
   \<and> length (generate_submodule_description sub c ctx) \<le> max 200 (length sub + 26)"
proof -
  have a: "(\<exists>body. generate_description_algorithmic m ctx = name m @ '': '' @ body \<and> length body \<le> 500)
     \<or> generate_description_algorithmic m ctx = ''Module related to '' @ name m @ '' functionality.''"
    by (simp add: generate_description_algorithmic_def Let_def)
  have b: "length (generate_description_algorithmic m ctx) \<le> length (name m) + 502"
    by (simp add: generate_description_algorithmic_def Let_def)
  have c: "length (generate_submodule_description sub c ctx) \<le> 200
     \<or> generate_submodule_description sub c ctx = ''Functionality related to '' @ sub @ ''.''"
    by (simp add: generate_submodule_description_def Let_def)
  have d: "length (generate_submodule_description sub c ctx) \<le> max 200 (length sub + 26)"
    using c by (auto simp: le_max_iff_disj)
  from a b c d show ?thesis by blast
qed

theorem description_length_bounds_witness:
  "length (generate_description_algorithmic
      \<lparr>name = ''Intro'', source = ''title'', content = ''Intro is here.'', url = ''http://a.com''\<rparr> [])
     \<le> 507
   \<and> length (generate_submodule_description ''Setup'' ''Run setup first.'' []) \<le> 200"
  using description_length_bounds
    [of "\<lparr>name = ''Intro'', source = ''title'', content = ''Intro is here.'', url = ''http://a.com''\<rparr>"
        "[]" "''Setup''" "''Run setup first.''"]
  by simp

subsection \<open>URL canonicalization\<close>



















































text \<open>
  A second way to lose idempotence, with a scheme and a host: stripping the trailing slash
  turns a path segment with a semicolon into the last one, whose parameters the next
  parse splits off.
\<close>

lemma normalize_url_params_not_idempotent:
  "normalize_url no_bracketed_host ''http://a.com/a;b/'' None = ''http://a.com/a;b''
   \<and> normalize_url no_bracketed_host ''http://a.com/a;b'' None = ''http://a.com/a''"
  by code_simp



subsection \<open>Clustering without an embedding model\<close>

lemma unique_names_subseq: "subseq (unique_names seen cs) cs"
  by (induction cs arbitrary: seen) (auto simp: subseq_Cons')

lemma unique_names_not_seen:
  "c \<in> set (unique_names seen cs) \<Longrightarrow> lower (name c) \<notin> seen"
  by (induction cs arbitrary: seen) (auto split: if_splits)

lemma unique_names_distinct: "distinct (map (\<lambda>c. lower (name c)) (unique_names seen cs))"
  by (induction cs arbitrary: seen) (auto dest: unique_names_not_seen)

lemma unique_names_covers:
  "c \<in> set cs \<Longrightarrow> lower (name c) \<notin> seen \<Longrightarrow>
   \<exists>d\<in>set (unique_names seen cs). lower (name d) = lower (name c)"
proof (induction cs arbitrary: seen)
  case Nil
  then show ?case by simp
next
  case (Cons a cs)
  show ?case
  proof (cases "lower (name a) = lower (name c)")
    case True
    with Cons.prems show ?thesis by auto
  next
    case False
    with Cons.prems have "c \<in> set cs" by auto
    moreover from False Cons.prems have "lower (name c) \<notin> insert (lower (name a)) seen" by auto
    ultimately show ?thesis using Cons.IH [of seen] Cons.IH [of "insert (lower (name a)) seen"] Cons.prems
      by auto
  qed
qed

lemma unique_names_first:
  "d \<in> set (unique_names seen cs) \<Longrightarrow>
   find (\<lambda>c. lower (name c) = lower (name d)) cs = Some d"
proof (induction cs arbitrary: seen)
  case Nil
  then show ?case by simp
next
  case (Cons a cs)
  show ?case
  proof (cases "lower (name a) \<in> seen")
    case True
    with Cons.prems have in_rest: "d \<in> set (unique_names seen cs)" by simp
    then have "lower (name d) \<notin> seen" by (rule unique_names_not_seen)
    with True have "lower (name a) \<noteq> lower (name d)" by auto
    with Cons.IH [OF in_rest] show ?thesis by simp
  next
    case False
    with Cons.prems consider "d = a" | "d \<in> set (unique_names (insert (lower (name a)) seen) cs)"
      by auto
    then show ?thesis
    proof cases
      case 1
      then show ?thesis by simp
    next
      case 2
      then have "lower (name d) \<noteq> lower (name a)" using unique_names_not_seen by fastforce
      with Cons.IH [OF 2] show ?thesis by simp
    qed
  qed
qed

text \<open>
  C5, as stated, fails. When the similarity step raises, the \<open>except\<close> branch returns the
  candidates as they came, duplicates included: the de-duplication loop is inside the
  \<open>try\<close> block, after the similarity step, and is skipped. Here the title and the first
  heading of a page are both \<open>About\<close>.
\<close>

theorem cluster_modules_failure_keeps_duplicates:
  "\<not> distinct (map (\<lambda>c. lower (name c))
       (cluster_modules None (\<lambda>names. (None :: unit option))
          [\<lparr>name = ''About'', source = ''title'', content = ''About us.'', url = ''http://a.com''\<rparr>,
           \<lparr>name = ''About'', source = ''heading_h1'', content = ''About us.'', url = ''http://a.com''\<rparr>]))"
  by (simp add: cluster_modules_def)

text \<open>
  C5, amended. Without an embedding model, when the similarity step raises, \<open>cluster_modules\<close>
  returns the candidate list unmodified and raises nothing; when the step succeeds, it
  returns the candidates de-duplicated by lower-cased name: a subsequence of the input, with
  pairwise distinct lower-cased names, holding for every input candidate one of the same
  lower-cased name, each kept candidate being the first of its lower-cased name in the input.
\<close>

theorem cluster_modules_fallback:
  "(tfidf_similarity (map name cs) = None \<longrightarrow> cluster_modules None tfidf_similarity cs = cs)
   \<and> (tfidf_similarity (map name cs) \<noteq> None \<longrightarrow>
        subseq (cluster_modules None tfidf_similarity cs) cs
      \<and> distinct (map (\<lambda>c. lower (name c)) (cluster_modules None tfidf_similarity cs))
      \<and> (\<forall>c\<in>set cs. \<exists>d\<in>set (cluster_modules None tfidf_similarity cs).
            lower (name d) = lower (name c))
      \<and> (\<forall>d\<in>set (cluster_modules None tfidf_similarity cs).
            find (\<lambda>c. lower (name c) = lower (name d)) cs = Some d))"
proof (cases "tfidf_similarity (map name cs)")
  case None
  then show ?thesis by (simp add: cluster_modules_def)
next
  case (Some sim)
  then have eq: "cluster_modules None tfidf_similarity cs = unique_names {} cs"
    by (simp add: cluster_modules_def)
  show ?thesis
    unfolding eq using Some
    by (auto simp: unique_names_subseq unique_names_distinct unique_names_first
        intro: unique_names_covers)
qed

theorem cluster_modules_fallback_witness:
  "cluster_modules None (\<lambda>names. (None :: unit option))
      [\<lparr>name = ''About'', source = ''title'', content = ''About us.'', url = ''http://a.com''\<rparr>,
       \<lparr>name = ''ABOUT'', source = ''heading_h1'', content = ''More.'', url = ''http://a.com''\<rparr>]
   = [\<lparr>name = ''About'', source = ''title'', content = ''About us.'', url = ''http://a.com''\<rparr>,
      \<lparr>name = ''ABOUT'', source = ''heading_h1'', content = ''More.'', url = ''http://a.com''\<rparr>]
   \<and> distinct (map (\<lambda>c. lower (name c)) (cluster_modules None (\<lambda>names. Some ())
      [\<lparr>name = ''About'', source = ''title'', content = ''About us.'', url = ''http://a.com''\<rparr>,
       \<lparr>name = ''ABOUT'', source = ''heading_h1'', content = ''More.'', url = ''http://a.com''\<rparr>]))"
  using cluster_modules_fallback [of "\<lambda>names. (None :: unit option)"
      "[\<lparr>name = ''About'', source = ''title'', content = ''About us.'', url = ''http://a.com''\<rparr>,
       \<lparr>name = ''ABOUT'', source = ''heading_h1'', content = ''More.'', url = ''http://a.com''\<rparr>]"]
    cluster_modules_fallback [of "\<lambda>names. Some ()"
      "[\<lparr>name = ''About'', source = ''title'', content = ''About us.'', url = ''http://a.com''\<rparr>,
       \<lparr>name = ''ABOUT'', source = ''heading_h1'', content = ''More.'', url = ''http://a.com''\<rparr>]"]
  by simp



end
